theory Spec2Isabelle
  imports Main "HOL-Library.FSet"
begin

section \<open>Type tags, tag sets and the thread-local override\<close>

text \<open>
  Modelled from the spec: the enumeration \<open>TensorTypeId\<close> is declared outside
  \<open>Dispatcher.h\<close>. The spec describes it as a small closed enumeration ordered by
  priority. A tag is represented by its rank in that order (a larger rank is a higher
  priority); \<open>UndefinedTensorId\<close> is the distinguished tag of rank 0.
\<close>

type_synonym TensorTypeId = nat

definition UndefinedTensorId :: TensorTypeId where
  "UndefinedTensorId = 0"

text \<open>
  Modelled from the spec: \<open>TensorTypeSet\<close> with its operators \<open>|\<close> and \<open>-\<close> and its
  member \<open>highestPriorityTypeId\<close> is declared outside \<open>Dispatcher.h\<close>. The spec
  describes a set of tags of fixed size with union, difference and a query for the member
  of highest priority, the empty set standing for "undefined".
\<close>

type_synonym TensorTypeSet = "TensorTypeId fset"

definition highestPriorityTypeId :: "TensorTypeSet \<Rightarrow> TensorTypeId" where
  "highestPriorityTypeId ts = (if ts = {||} then UndefinedTensorId else fMax ts)"

text \<open>
  \<open>c10::impl::LocalTensorTypeSet\<close>, the value \<open>tls_local_tensor_type_set()\<close> returns.
  Reading the thread-local state is made explicit: \<open>dispatchTypeId\<close> receives it as
  its first argument.
\<close>

record LocalTensorTypeSet =
  included :: TensorTypeSet
  excluded :: TensorTypeSet

definition dispatchTypeId :: "LocalTensorTypeSet \<Rightarrow> TensorTypeSet \<Rightarrow> TensorTypeId" where
  "dispatchTypeId local ts =
     highestPriorityTypeId ((ts |\<union>| included local) |-| excluded local)"

subsection \<open>Collecting the tags of the arguments\<close>

text \<open>
  The four overloads of \<open>MultiDispatchTensorTypeSet::operator()\<close> distinguish a tensor,
  a \<open>TensorOptions\<close>, an array of tensors and anything else. A tensor or an options
  value is read only through \<open>type_set()\<close>, so it is represented by that set.
\<close>

datatype arg =
    TensorArg TensorTypeSet
  | TensorOptionsArg TensorTypeSet
  | TensorListArg "TensorTypeSet list"
  | OtherArg

fun tensor_list_loop :: "TensorTypeSet list \<Rightarrow> TensorTypeSet \<Rightarrow> TensorTypeSet" where
  "tensor_list_loop [] ts = ts"
| "tensor_list_loop (x # xs) ts = tensor_list_loop xs (ts |\<union>| x)"

fun MultiDispatchTensorTypeSet_call :: "TensorTypeSet \<Rightarrow> arg \<Rightarrow> TensorTypeSet" where
  "MultiDispatchTensorTypeSet_call ts (TensorArg x) = ts |\<union>| x"
| "MultiDispatchTensorTypeSet_call ts (TensorOptionsArg x) = ts |\<union>| x"
| "MultiDispatchTensorTypeSet_call ts (TensorListArg xs) = tensor_list_loop xs ts"
| "MultiDispatchTensorTypeSet_call ts OtherArg = ts"

text \<open>\<open>IterArgs::apply\<close> visits the arguments from left to right.\<close>

fun MultiDispatchTensorTypeSet_apply :: "TensorTypeSet \<Rightarrow> arg list \<Rightarrow> TensorTypeSet" where
  "MultiDispatchTensorTypeSet_apply ts [] = ts"
| "MultiDispatchTensorTypeSet_apply ts (a # as) =
     MultiDispatchTensorTypeSet_apply (MultiDispatchTensorTypeSet_call ts a) as"

definition multi_dispatch_tensor_type_set :: "arg list \<Rightarrow> TensorTypeSet" where
  "multi_dispatch_tensor_type_set args = MultiDispatchTensorTypeSet_apply {||} args"

text \<open>
  The tags an argument carries, as the spec words it: every tag embedded in a tensor, an
  options value or a member of a sequence; other arguments carry none.
\<close>

fun embedded_tags :: "arg \<Rightarrow> TensorTypeSet" where
  "embedded_tags (TensorArg x) = x"
| "embedded_tags (TensorOptionsArg x) = x"
| "embedded_tags (TensorListArg xs) = ffUnion (fset_of_list xs)"
| "embedded_tags OtherArg = {||}"

section \<open>Failures and warnings\<close>

text \<open>
  \<open>TORCH_CHECK(false, ...)\<close> raises \<open>c10::Error\<close> with the concatenated message;
  \<open>TORCH_INTERNAL_ASSERT\<close> raises with the text of the violated condition. A failed
  schema comparison at registration is the spec's \<open>SchemaConflict\<close>.
\<close>

datatype error =
    Error string
  | InternalAssert string
  | SchemaConflict

section \<open>The kernel table\<close>

text \<open>
  Modelled from the spec: \<open>ska::flat_hash_map\<close> is declared outside \<open>Dispatcher.h\<close>.
  The spec asks for a mapping with at most one kernel per tag. The container is
  represented by its entries in the order in which an iteration from \<open>begin()\<close> to
  \<open>end()\<close> visits them. Where \<open>emplace\<close> puts a new entry is decided by the
  container's hashing policy: it is the parameter \<open>place\<close>, which gives the position of
  the new entry from the key and the present keys. Identifiers cannot end in an
  underscore here, so the member \<open>map_\<close> is the field \<open>entries\<close>, and likewise
  for the other members named with a trailing underscore.
\<close>

type_synonym ('a, 'b) flat_hash_map = "('a \<times> 'b) list"

definition flat_hash_map_find :: "('a, 'b) flat_hash_map \<Rightarrow> 'a \<Rightarrow> 'b option" where
  "flat_hash_map_find m key = map_of m key"

definition flat_hash_map_emplace ::
  "('a \<Rightarrow> 'a list \<Rightarrow> nat) \<Rightarrow> ('a, 'b) flat_hash_map \<Rightarrow> 'a \<Rightarrow> 'b \<Rightarrow> ('a, 'b) flat_hash_map \<times> bool" where
  "flat_hash_map_emplace place m key val =
     (case map_of m key of
        Some _ \<Rightarrow> (m, False)
      | None \<Rightarrow>
          (let p = place key (map fst m) in (take p m @ (key, val) # drop p m, True)))"

fun assign :: "('a, 'b) flat_hash_map \<Rightarrow> 'a \<Rightarrow> 'b \<Rightarrow> ('a, 'b) flat_hash_map" where
  "assign [] key val = []"
| "assign (e # m) key val =
     (if fst e = key then (key, val) # m else e # assign m key val)"

definition flat_hash_map_erase :: "('a, 'b) flat_hash_map \<Rightarrow> 'a \<Rightarrow> ('a, 'b) flat_hash_map \<times> nat" where
  "flat_hash_map_erase m key =
     (filter (\<lambda>e. fst e \<noteq> key) m, length (filter (\<lambda>e. fst e = key) m))"

record 'k KernelTable =
  entries :: "(TensorTypeId, 'k) flat_hash_map"

text \<open>
  The text of the warning \<open>KernelTable_::set\<close> emits. \<open>toString\<close> on a tag is
  declared outside \<open>Dispatcher.h\<close> and is a parameter throughout.
\<close>

definition overwrite_warning :: "string \<Rightarrow> string \<Rightarrow> string" where
  "overwrite_warning operator_name key_str =
     ''Registered a kernel for operator '' @ operator_name @ '' with dispatch key '' @ key_str @
     '' that overwrote a previously registered kernel with the same dispatch key for the same operator.''"

text \<open>
  The members of \<open>detail::KernelTable_\<close>; \<open>set\<close>, \<open>removeIfExists\<close>,
  \<open>lookup\<close> and \<open>size\<close> carry the name of the class in front, since the plain
  names are taken. The result of \<open>set\<close> is the table after the call together with the
  warnings emitted by \<open>TORCH_WARN\<close>. The assignment through the iterator that
  \<open>emplace\<close> returns for a present key is \<open>assign\<close>.
\<close>

definition KernelTable_set ::
  "(TensorTypeId \<Rightarrow> string) \<Rightarrow> (TensorTypeId \<Rightarrow> TensorTypeId list \<Rightarrow> nat) \<Rightarrow>
   'k KernelTable \<Rightarrow> TensorTypeId \<Rightarrow> 'k \<Rightarrow> string \<Rightarrow> 'k KernelTable \<times> string list" where
  "KernelTable_set toString place t key val operator_name =
     (let emplaced = flat_hash_map_emplace place (entries t) key val in
      if \<not> snd emplaced
      then (t\<lparr>entries := assign (fst emplaced) key val\<rparr>,
            [overwrite_warning operator_name (toString key)])
      else (t\<lparr>entries := fst emplaced\<rparr>, []))"

definition KernelTable_removeIfExists ::
  "'k KernelTable \<Rightarrow> TensorTypeId \<Rightarrow> string \<Rightarrow> error + 'k KernelTable" where
  "KernelTable_removeIfExists t key operator_name =
     (let erased = flat_hash_map_erase (entries t) key in
      if snd erased \<le> 1 then Inr (t\<lparr>entries := fst erased\<rparr>)
      else Inl (InternalAssert ''num_removed <= 1''))"

definition KernelTable_lookup :: "'k KernelTable \<Rightarrow> TensorTypeId \<Rightarrow> 'k option" where
  "KernelTable_lookup t key = flat_hash_map_find (entries t) key"


fun list_all_dispatch_keys_loop ::
  "(TensorTypeId \<Rightarrow> string) \<Rightarrow> (TensorTypeId \<times> 'k) list \<Rightarrow> string \<Rightarrow> string" where
  "list_all_dispatch_keys_loop toString [] str = str"
| "list_all_dispatch_keys_loop toString (e # rest) str =
     list_all_dispatch_keys_loop toString rest (str @ '', '' @ toString (fst e))"

definition list_all_dispatch_keys :: "(TensorTypeId \<Rightarrow> string) \<Rightarrow> 'k KernelTable \<Rightarrow> string" where
  "list_all_dispatch_keys toString t =
     (case entries t of
        [] \<Rightarrow> ''[]''
      | e # rest \<Rightarrow>
          list_all_dispatch_keys_loop toString rest (''['' @ toString (fst e)) @ '']'')"

text \<open>
  The listing the spec describes: the registered tags in ascending order. It is compared
  with \<open>list_all_dispatch_keys\<close> below.
\<close>

fun separated :: "string list \<Rightarrow> string" where
  "separated [] = []"
| "separated [s] = s"
| "separated (s # r # rest) = s @ '', '' @ separated (r # rest)"

definition bracketed :: "(TensorTypeId \<Rightarrow> string) \<Rightarrow> TensorTypeId list \<Rightarrow> string" where
  "bracketed toString keys = ''['' @ separated (map toString keys) @ '']''"

definition sorted_listing :: "(TensorTypeId \<Rightarrow> string) \<Rightarrow> 'k KernelTable \<Rightarrow> string" where
  "sorted_listing toString t = bracketed toString (sort (map fst (entries t)))"

section \<open>The dispatch table and the resolution of a call\<close>

text \<open>
  Modelled from the spec: \<open>DispatchTable\<close> is declared outside \<open>Dispatcher.h\<close>. The
  spec gives an operator one kernel table and one optional catchall kernel;
  \<open>dispatch_\<close> uses its members \<open>lookup\<close>, \<open>lookupCatchallKernel\<close>,
  \<open>operatorName\<close> and \<open>listAllDispatchKeys\<close>, which read these fields.
\<close>

record 'k DispatchTable =
  kernels :: "'k KernelTable"
  catchall :: "'k option"
  opName :: string

definition lookup :: "'k DispatchTable \<Rightarrow> TensorTypeId \<Rightarrow> 'k option" where
  "lookup dispatchTable key = KernelTable_lookup (kernels dispatchTable) key"

definition lookupCatchallKernel :: "'k DispatchTable \<Rightarrow> 'k option" where
  "lookupCatchallKernel dispatchTable = catchall dispatchTable"

definition operatorName :: "'k DispatchTable \<Rightarrow> string" where
  "operatorName dispatchTable = opName dispatchTable"

definition listAllDispatchKeys :: "(TensorTypeId \<Rightarrow> string) \<Rightarrow> 'k DispatchTable \<Rightarrow> string" where
  "listAllDispatchKeys toString dispatchTable =
     list_all_dispatch_keys toString (kernels dispatchTable)"

text \<open>
  The two \<open>TORCH_CHECK\<close> failures of \<open>Dispatcher::dispatch_\<close> (the function
  \<open>dispatch\<close> below), named as the spec names them, with the messages of the source.
\<close>

definition NoTaggedArguments :: "string \<Rightarrow> string \<Rightarrow> error" where
  "NoTaggedArguments operator_name registered =
     Error (''There were no tensor arguments to this function (e.g., you passed an '' @
            ''empty list of Tensors), but no fallback function is registered for schema '' @
            operator_name @
            ''.  This usually means that this function requires a non-empty list of Tensors.  '' @
            ''Available functions are '' @ registered)"

definition NoKernelFound :: "string \<Rightarrow> string \<Rightarrow> string \<Rightarrow> error" where
  "NoKernelFound operator_name dispatchKeyStr registered =
     Error (''Didn't find kernel to dispatch to for operator '' @ [CHR 0x27] @ operator_name @
            [CHR 0x27] @ ''. Tried to look up kernel for dispatch key '' @ [CHR 0x27] @
            dispatchKeyStr @
            [CHR 0x27] @ ''. Registered dispatch keys are: '' @ registered)"

definition dispatch ::
  "(TensorTypeId \<Rightarrow> string) \<Rightarrow> 'k DispatchTable \<Rightarrow> TensorTypeId option \<Rightarrow> error + 'k" where
  "dispatch toString dispatchTable dispatchKey =
     (case (case dispatchKey of
              Some key \<Rightarrow> lookup dispatchTable key
            | None \<Rightarrow> None) of
        Some backendKernel \<Rightarrow> Inr backendKernel
      | None \<Rightarrow>
          (case lookupCatchallKernel dispatchTable of
             Some catchallKernel \<Rightarrow> Inr catchallKernel
           | None \<Rightarrow>
               if dispatchKey = None \<or> dispatchKey = Some UndefinedTensorId
               then Inl (NoTaggedArguments (operatorName dispatchTable)
                           (listAllDispatchKeys toString dispatchTable))
               else Inl (NoKernelFound (operatorName dispatchTable)
                           (case dispatchKey of Some key \<Rightarrow> toString key | None \<Rightarrow> ''None'')
                           (listAllDispatchKeys toString dispatchTable))))"

text \<open>
  The set the spec calls effective: the tags of the arguments joined with the included
  tags of the thread, less the excluded ones.
\<close>

definition effective :: "LocalTensorTypeSet \<Rightarrow> TensorTypeSet \<Rightarrow> TensorTypeSet" where
  "effective local ts = (ts |\<union>| included local) |-| excluded local"

section \<open>Operators, handles and the three ways to call\<close>

text \<open>
  Modelled from the spec: \<open>OperatorName\<close>, \<open>FunctionSchema\<close>, \<open>OperatorOptions\<close>
  and \<open>impl::OperatorEntry\<close> with its member \<open>readDispatchTable\<close> are declared
  outside \<open>Dispatcher.h\<close>. The spec uses an operator name as a unique key, makes a
  schema a name with a signature, and lets an entry own one schema, its options and one
  dispatch table, to which it gives read access. A name is represented by its printed
  form, a signature and the options by their text.
\<close>

type_synonym OperatorName = string

record FunctionSchema =
  schema_name :: OperatorName
  schema_signature :: string

type_synonym OperatorOptions = string

record 'k OperatorEntry =
  entry_schema :: FunctionSchema
  entry_options :: OperatorOptions
  entry_dispatchTable :: "'k DispatchTable"

definition OperatorEntry :: "FunctionSchema \<Rightarrow> OperatorOptions \<Rightarrow> 'k OperatorEntry" where
  "OperatorEntry schema options =
     \<lparr>entry_schema = schema, entry_options = options,
      entry_dispatchTable =
        \<lparr>kernels = \<lparr>entries = []\<rparr>, catchall = None, opName = schema_name schema\<rparr>\<rparr>"

definition readDispatchTable :: "'k OperatorEntry \<Rightarrow> ('k DispatchTable \<Rightarrow> 'r) \<Rightarrow> 'r" where
  "readDispatchTable entry f = f (entry_dispatchTable entry)"

text \<open>
  \<open>Dispatcher::OperatorDef\<close> and its constructor. The count is a \<open>size_t\<close>; it is a
  natural number here, and no function below lets it reach the bound of \<open>size_t\<close>.
\<close>

record 'k OperatorDef =
  op :: "'k OperatorEntry"
  refcount :: nat

definition OperatorDef :: "FunctionSchema \<Rightarrow> OperatorOptions \<Rightarrow> 'k OperatorDef" where
  "OperatorDef schema options = \<lparr>op = OperatorEntry schema options, refcount = 0\<rparr>"

text \<open>
  The three call functions of \<open>Dispatcher\<close>. Each receives, as \<open>operatorDef\<close>, the
  \<open>OperatorDef\<close> that \<open>op.operatorIterator_\<close> designates. The key extractors
  (\<open>getDispatchKeyUnboxed\<close>, \<open>getDispatchKeyBoxed\<close> of the table's
  \<open>dispatchKeyExtractor()\<close>) and the invocations of a \<open>KernelFunction\<close>
  (\<open>callUnboxed\<close>, \<open>callUnboxedOnly\<close>, \<open>callBoxed\<close>) are declared outside
  \<open>Dispatcher.h\<close>: they are parameters. A failure of \<open>dispatch\<close> leaves the call
  before a kernel is invoked.
\<close>

definition callUnboxed ::
  "(TensorTypeId \<Rightarrow> string) \<Rightarrow> ('k DispatchTable \<Rightarrow> 'a \<Rightarrow> TensorTypeId option) \<Rightarrow>
   ('k \<Rightarrow> 'a \<Rightarrow> 'r) \<Rightarrow> 'k OperatorDef \<Rightarrow> 'a \<Rightarrow> error + 'r" where
  "callUnboxed toString getDispatchKeyUnboxed kernel_callUnboxed operatorDef args =
     readDispatchTable (op operatorDef) (\<lambda>dispatchTable.
       let dispatchKey = getDispatchKeyUnboxed dispatchTable args in
       case dispatch toString dispatchTable dispatchKey of
         Inl e \<Rightarrow> Inl e
       | Inr kern \<Rightarrow> Inr (kernel_callUnboxed kern args))"

definition callUnboxedOnly ::
  "(TensorTypeId \<Rightarrow> string) \<Rightarrow> ('k DispatchTable \<Rightarrow> 'a \<Rightarrow> TensorTypeId option) \<Rightarrow>
   ('k \<Rightarrow> 'a \<Rightarrow> 'r) \<Rightarrow> 'k OperatorDef \<Rightarrow> 'a \<Rightarrow> error + 'r" where
  "callUnboxedOnly toString getDispatchKeyUnboxed kernel_callUnboxedOnly operatorDef args =
     readDispatchTable (op operatorDef) (\<lambda>dispatchTable.
       let dispatchKey = getDispatchKeyUnboxed dispatchTable args in
       case dispatch toString dispatchTable dispatchKey of
         Inl e \<Rightarrow> Inl e
       | Inr kern \<Rightarrow> Inr (kernel_callUnboxedOnly kern args))"

definition callBoxed ::
  "(TensorTypeId \<Rightarrow> string) \<Rightarrow> ('k DispatchTable \<Rightarrow> 's \<Rightarrow> TensorTypeId option) \<Rightarrow>
   ('k \<Rightarrow> 's \<Rightarrow> 's) \<Rightarrow> 'k OperatorDef \<Rightarrow> 's \<Rightarrow> error + 's" where
  "callBoxed toString getDispatchKeyBoxed kernel_callBoxed operatorDef stack =
     readDispatchTable (op operatorDef) (\<lambda>dispatchTable.
       let dispatchKey = getDispatchKeyBoxed dispatchTable stack in
       case dispatch toString dispatchTable dispatchKey of
         Inl e \<Rightarrow> Inl e
       | Inr kern \<Rightarrow> Inr (kernel_callBoxed kern stack))"

text \<open>
  Modelled from the spec: \<open>DispatchKeyExtractor\<close> with its members
  \<open>getDispatchKeyUnboxed\<close> and \<open>getDispatchKeyBoxed\<close> is declared outside
  \<open>Dispatcher.h\<close>. By the spec the extractor collects every tag embedded in the
  arguments of the call, or in the values of the argument stack, combines the set with the
  thread-local override and reduces it to the tag of highest priority, or to the
  undefined tag when the set is empty. The typed arguments are collected by
  \<open>multi_dispatch_tensor_type_set\<close> of \<open>Dispatcher.h\<close>; the stack of a boxed call
  holds the arguments of the call as values, and its tags are collected value by value.
  The thread-local override is an explicit argument; the extractor is reached through the
  dispatch table, which it does not read. The two members carry the name of their class
  in front.
\<close>

definition DispatchKeyExtractor_getDispatchKeyUnboxed ::
  "LocalTensorTypeSet \<Rightarrow> 'k DispatchTable \<Rightarrow> arg list \<Rightarrow> TensorTypeId option" where
  "DispatchKeyExtractor_getDispatchKeyUnboxed local dispatchTable args =
     Some (dispatchTypeId local (multi_dispatch_tensor_type_set args))"

definition DispatchKeyExtractor_getDispatchKeyBoxed ::
  "LocalTensorTypeSet \<Rightarrow> 'k DispatchTable \<Rightarrow> arg list \<Rightarrow> TensorTypeId option" where
  "DispatchKeyExtractor_getDispatchKeyBoxed local dispatchTable stack =
     Some (dispatchTypeId local (ffUnion (fset_of_list (map embedded_tags stack))))"

section \<open>The registry\<close>

text \<open>
  \<open>Dispatcher::operators_\<close> is a \<open>std::list\<close>: every node keeps its identity while
  other nodes are added, and an \<open>OperatorHandle\<close> holds the iterator to one node. The
  list is represented by its nodes in order, each with its identity; a handle is that
  identity. The name index is a \<open>flat_hash_map\<close> as above (the \<open>LeftRight\<close> around
  it serves concurrent readers and adds nothing to its content). The listeners and the
  mutex are left out.
\<close>

type_synonym OperatorHandle = nat

record 'k Dispatcher =
  operators :: "(OperatorHandle \<times> 'k OperatorDef) list"
  operatorLookupTable :: "(OperatorName, OperatorHandle) flat_hash_map"

definition operatorIterator :: "'k Dispatcher \<Rightarrow> OperatorHandle \<Rightarrow> 'k OperatorDef option" where
  "operatorIterator d h = map_of (operators d) h"

text \<open>The identity of a node that \<open>emplace_back\<close> allocates: one no present node has.\<close>

definition new_node :: "(OperatorHandle \<times> 'v) list \<Rightarrow> OperatorHandle" where
  "new_node nodes = Suc (fold max (map fst nodes) 0)"

text \<open>
  Modelled from the spec: the bodies of \<open>findSchema\<close>, \<open>findOrRegisterSchema_\<close>
  (here \<open>findOrRegisterSchema\<close>) and \<open>registerSchema\<close> are outside
  \<open>Dispatcher.h\<close>, which only declares them. By
  the spec, \<open>findSchema\<close> is a lookup in the name index; a registration under a name
  that has an entry compares the schema with the stored one, fails with
  \<open>SchemaConflict\<close> when they differ and otherwise counts one more reference; under a
  new name it creates an entry, appends it to the collection and adds the name to the
  index. An index that names a node the list does not hold breaks the invariant of the
  registry and is reported as an internal assertion.
\<close>

definition findSchema :: "'k Dispatcher \<Rightarrow> OperatorName \<Rightarrow> OperatorHandle option" where
  "findSchema d operator_name = flat_hash_map_find (operatorLookupTable d) operator_name"

definition findOrRegisterSchema ::
  "(OperatorName \<Rightarrow> OperatorName list \<Rightarrow> nat) \<Rightarrow> 'k Dispatcher \<Rightarrow> FunctionSchema \<Rightarrow> OperatorOptions \<Rightarrow>
   error + (OperatorHandle \<times> 'k Dispatcher)" where
  "findOrRegisterSchema place d schema options =
     (case findSchema d (schema_name schema) of
        Some h \<Rightarrow>
          (case operatorIterator d h of
             Some found \<Rightarrow>
               if entry_schema (op found) = schema then Inr (h, d) else Inl SchemaConflict
           | None \<Rightarrow> Inl (InternalAssert ''operator handle without a node''))
      | None \<Rightarrow>
          (let h = new_node (operators d) in
           Inr (h, d\<lparr>operators := operators d @ [(h, OperatorDef schema options)],
                     operatorLookupTable :=
                       fst (flat_hash_map_emplace place (operatorLookupTable d)
                              (schema_name schema) h)\<rparr>)))"

definition increment_refcount ::
  "OperatorHandle \<Rightarrow> (OperatorHandle \<times> 'k OperatorDef) list \<Rightarrow> (OperatorHandle \<times> 'k OperatorDef) list" where
  "increment_refcount h nodes =
     map (\<lambda>node. if fst node = h
                  then (fst node, (snd node)\<lparr>refcount := Suc (refcount (snd node))\<rparr>)
                  else node) nodes"

definition registerSchema ::
  "(OperatorName \<Rightarrow> OperatorName list \<Rightarrow> nat) \<Rightarrow> 'k Dispatcher \<Rightarrow> FunctionSchema \<Rightarrow> OperatorOptions \<Rightarrow>
   error + (OperatorHandle \<times> 'k Dispatcher)" where
  "registerSchema place d schema options =
     (case findOrRegisterSchema place d schema options of
        Inl e \<Rightarrow> Inl e
      | Inr (h, d') \<Rightarrow> Inr (h, d'\<lparr>operators := increment_refcount h (operators d')\<rparr>))"

text \<open>
  A sequence of registrations, each on the registry the one before left. A registration
  that fails leaves the registry as it found it.
\<close>

fun registrations ::
  "(OperatorName \<Rightarrow> OperatorName list \<Rightarrow> nat) \<Rightarrow> 'k Dispatcher \<Rightarrow>
   (FunctionSchema \<times> OperatorOptions) list \<Rightarrow> 'k Dispatcher" where
  "registrations place d [] = d"
| "registrations place d (r # rs) =
     (case registerSchema place d (fst r) (snd r) of
        Inl e \<Rightarrow> registrations place d rs
      | Inr (h, d') \<Rightarrow> registrations place d' rs)"

text \<open>
  The name index is consistent: each of its entries leads to a node whose schema has the
  name of the entry.
\<close>

definition names_node :: "'k Dispatcher \<Rightarrow> OperatorName \<times> OperatorHandle \<Rightarrow> bool" where
  "names_node d e =
     (case operatorIterator d (snd e) of
        Some found \<Rightarrow> schema_name (entry_schema (op found)) = fst e
      | None \<Rightarrow> False)"

definition index_consistent :: "'k Dispatcher \<Rightarrow> bool" where
  "index_consistent d = list_all (names_node d) (operatorLookupTable d)"

section \<open>Concrete parameters for evaluation\<close>

text \<open>
  A printing of tags and a placement of new entries, to evaluate the functions above on
  concrete tables.
\<close>

definition example_toString :: "TensorTypeId \<Rightarrow> string" where
  "example_toString t =
     (if t = 0 then ''UndefinedTensorId'' else if t = 1 then ''CPUTensorId''
      else if t = 2 then ''CUDATensorId'' else ''OtherTensorId'')"

definition place_last :: "'a \<Rightarrow> 'a list \<Rightarrow> nat" where
  "place_last key keys = length keys"


definition example_callBoxed :: "string \<Rightarrow> arg list \<Rightarrow> arg list" where
  "example_callBoxed kern stack = [OtherArg]"

definition example_callUnboxed :: "string \<Rightarrow> arg list \<Rightarrow> string" where
  "example_callUnboxed kern args = kern"

definition example_operator :: "string OperatorDef" where
  "example_operator =
     \<lparr>op = \<lparr>entry_schema = \<lparr>schema_name = ''aten::add'', schema_signature = ''(Tensor, Tensor) -> Tensor''\<rparr>,
            entry_options = [],
            entry_dispatchTable =
              \<lparr>kernels = \<lparr>entries = [(1, ''cpu_kernel'')]\<rparr>, catchall = None, opName = ''aten::add''\<rparr>\<rparr>,
      refcount = 1\<rparr>"


definition example_registry :: "string Dispatcher" where
  "example_registry =
     \<lparr>operators = [(1, example_operator)],
      operatorLookupTable = [(''aten::add'', 1)]\<rparr>"

definition example_registrations :: "(FunctionSchema \<times> OperatorOptions) list" where
  "example_registrations =
     [(\<lparr>schema_name = ''aten::mul'', schema_signature = ''(Tensor, Tensor) -> Tensor''\<rparr>, []),
      (\<lparr>schema_name = ''aten::neg'', schema_signature = ''(Tensor) -> Tensor''\<rparr>, []),
      (\<lparr>schema_name = ''aten::mul'', schema_signature = ''(Tensor, Tensor) -> Tensor''\<rparr>, [])]"

section \<open>Properties of the key extraction\<close>

lemma tensor_list_loop_union:
  "tensor_list_loop xs ts = ts |\<union>| ffUnion (fset_of_list xs)"
  by (induction xs arbitrary: ts) auto

lemma MultiDispatchTensorTypeSet_call_union:
  "MultiDispatchTensorTypeSet_call ts a = ts |\<union>| embedded_tags a"
  by (cases a) (simp_all add: tensor_list_loop_union)

lemma MultiDispatchTensorTypeSet_apply_union:
  "MultiDispatchTensorTypeSet_apply ts args = ts |\<union>| ffUnion (fset_of_list (map embedded_tags args))"
  by (induction args arbitrary: ts) (auto simp: MultiDispatchTensorTypeSet_call_union)

lemma highestPriorityTypeId_empty: "highestPriorityTypeId {||} = UndefinedTensorId"
  by (simp add: highestPriorityTypeId_def)

lemma highestPriorityTypeId_member:
  "ts \<noteq> {||} \<Longrightarrow> highestPriorityTypeId ts |\<in>| ts"
  by (simp add: highestPriorityTypeId_def)

lemma highestPriorityTypeId_greatest:
  "t |\<in>| ts \<Longrightarrow> t \<le> highestPriorityTypeId ts"
  by (auto simp: highestPriorityTypeId_def)

lemma dispatchTypeId_effective:
  "dispatchTypeId local ts = highestPriorityTypeId (effective local ts)"
  by (simp add: dispatchTypeId_def effective_def)

text \<open>
  Claim C3. The key \<open>dispatchTypeId\<close> extracts is \<open>UndefinedTensorId\<close> when the
  effective set is empty, and otherwise a member of the effective set that no member
  exceeds in priority; the tag set of the arguments is the union of the tags they carry.
  The function has no other input than the thread-local sets and the tag set, and returns
  nothing but the key.
\<close>

theorem dispatchTypeId_highest_priority:
  "(effective local ts = {||} \<longrightarrow> dispatchTypeId local ts = UndefinedTensorId) \<and>
   (effective local ts \<noteq> {||} \<longrightarrow>
      dispatchTypeId local ts |\<in>| effective local ts \<and>
      (\<forall>t. t |\<in>| effective local ts \<longrightarrow> t \<le> dispatchTypeId local ts)) \<and>
   multi_dispatch_tensor_type_set args = ffUnion (fset_of_list (map embedded_tags args))"
proof (intro conjI impI allI)
  assume "effective local ts = {||}"
  then show "dispatchTypeId local ts = UndefinedTensorId"
    by (simp add: dispatchTypeId_effective highestPriorityTypeId_empty)
next
  assume "effective local ts \<noteq> {||}"
  then show "dispatchTypeId local ts |\<in>| effective local ts"
    unfolding dispatchTypeId_effective by (rule highestPriorityTypeId_member)
next
  fix t
  assume "t |\<in>| effective local ts"
  then show "t \<le> dispatchTypeId local ts"
    unfolding dispatchTypeId_effective by (rule highestPriorityTypeId_greatest)
next
  show "multi_dispatch_tensor_type_set args = ffUnion (fset_of_list (map embedded_tags args))"
    by (simp add: multi_dispatch_tensor_type_set_def MultiDispatchTensorTypeSet_apply_union)
qed

text \<open>Two evaluations of the extraction: a non-empty and an empty effective set.\<close>

theorem dispatchTypeId_highest_priority_witness:
  "effective \<lparr>included = {|4|}, excluded = {|5|}\<rparr> {|5, 2|} \<noteq> {||} \<and>
   dispatchTypeId \<lparr>included = {|4|}, excluded = {|5|}\<rparr> {|5, 2|} = 4 \<and>
   effective \<lparr>included = {||}, excluded = {|5|}\<rparr> {|5|} = {||} \<and> 
   dispatchTypeId \<lparr>included = {||}, excluded = {|5|}\<rparr> {|5|} = UndefinedTensorId \<and>
   multi_dispatch_tensor_type_set [TensorArg {|1|}, OtherArg, TensorListArg [{|2|}, {|3|}]] = {|1, 2, 3|}"
  using dispatchTypeId_highest_priority [of "\<lparr>included = {|4|}, excluded = {|5|}\<rparr>" "{|5, 2|}" "[TensorArg {|1|}, OtherArg, TensorListArg [{|2|}, {|3|}]]"]
    dispatchTypeId_highest_priority [of "\<lparr>included = {||}, excluded = {|5|}\<rparr>" "{|5|}" "[]"]
  by (auto simp add: effective_def UndefinedTensorId_def)


section \<open>Properties of the kernel table\<close>

lemma map_of_insert_between:
  "map_of (xs @ ys) key = None \<Longrightarrow>
   map_of (xs @ (key, val) # ys) = (map_of (xs @ ys))(key \<mapsto> val)"
  by (rule ext) (auto simp: map_add_def split: option.splits)

lemma distinct_insert_between:
  "distinct (map fst (xs @ ys)) \<Longrightarrow> key \<notin> fst ` set (xs @ ys) \<Longrightarrow>
   distinct (map fst (xs @ (key, val) # ys))"
  by auto

lemma map_of_assign:
  "map_of (assign m key val) = (if map_of m key = None then map_of m else (map_of m)(key \<mapsto> val))"
  by (induction m) (auto simp: fun_eq_iff)

lemma keys_assign: "map fst (assign m key val) = map fst m"
  by (induction m) auto

lemma flat_hash_map_emplace_present:
  "map_of m key = Some old \<Longrightarrow> flat_hash_map_emplace place m key val = (m, False)"
  by (simp add: flat_hash_map_emplace_def)

lemma flat_hash_map_emplace_absent:
  assumes "map_of m key = None"
  shows "snd (flat_hash_map_emplace place m key val)"
    and "map_of (fst (flat_hash_map_emplace place m key val)) = (map_of m)(key \<mapsto> val)"
    and "distinct (map fst m) \<Longrightarrow> distinct (map fst (fst (flat_hash_map_emplace place m key val)))"
proof -
  let ?p = "place key (map fst m)"
  have e: "flat_hash_map_emplace place m key val = (take ?p m @ (key, val) # drop ?p m, True)"
    using assms by (simp add: flat_hash_map_emplace_def Let_def)
  show "snd (flat_hash_map_emplace place m key val)" by (simp add: e)
  show "map_of (fst (flat_hash_map_emplace place m key val)) = (map_of m)(key \<mapsto> val)"
    using map_of_insert_between [of "take ?p m" "drop ?p m" key val] assms
    by (simp add: e del: map_of_append)
  assume "distinct (map fst m)"
  moreover from assms have "key \<notin> fst ` set m" by (simp add: map_of_eq_None_iff)
  ultimately show "distinct (map fst (fst (flat_hash_map_emplace place m key val)))"
    using distinct_insert_between [of "take ?p m" "drop ?p m" key val]
    by (simp add: e del: map_append distinct_append)
qed

lemma KernelTable_set_present:
  "map_of (entries t) key = Some old \<Longrightarrow>
   KernelTable_set toString place t key val operator_name =
     (t\<lparr>entries := assign (entries t) key val\<rparr>, [overwrite_warning operator_name (toString key)])"
  by (simp add: KernelTable_set_def flat_hash_map_emplace_present)

lemma KernelTable_set_absent:
  "map_of (entries t) key = None \<Longrightarrow>
   KernelTable_set toString place t key val operator_name =
     (t\<lparr>entries := fst (flat_hash_map_emplace place (entries t) key val)\<rparr>, [])"
  by (simp add: KernelTable_set_def flat_hash_map_emplace_absent(1))

lemma KernelTable_lookup_set:
  "KernelTable_lookup (fst (KernelTable_set toString place t key val operator_name)) =
   (KernelTable_lookup t)(key \<mapsto> val)"
proof (cases "map_of (entries t) key")
  case None
  then show ?thesis
    by (auto simp: KernelTable_set_absent KernelTable_lookup_def flat_hash_map_find_def
        flat_hash_map_emplace_absent(2) fun_eq_iff)
next
  case (Some old)
  then show ?thesis
    by (auto simp: KernelTable_set_present KernelTable_lookup_def flat_hash_map_find_def
        map_of_assign fun_eq_iff)
qed

lemma KernelTable_set_warnings:
  "snd (KernelTable_set toString place t key val operator_name) =
   (if KernelTable_lookup t key = None then []
    else [overwrite_warning operator_name (toString key)])"
  by (cases "map_of (entries t) key")
    (simp_all add: KernelTable_set_absent KernelTable_set_present KernelTable_lookup_def
      flat_hash_map_find_def)

lemma KernelTable_set_distinct:
  "distinct (map fst (entries t)) \<Longrightarrow>
   distinct (map fst (entries (fst (KernelTable_set toString place t key val operator_name))))"
  by (cases "map_of (entries t) key")
    (simp_all add: KernelTable_set_absent KernelTable_set_present keys_assign
      flat_hash_map_emplace_absent(3))

lemma distinct_filter_key:
  "distinct (map fst m) \<Longrightarrow> map_of m key = Some val \<Longrightarrow>
   filter (\<lambda>e. fst e = key) m = [(key, val)]"
proof (induction m)
  case Nil
  then show ?case by simp
next
  case (Cons e m)
  show ?case
  proof (cases "fst e = key")
    case True
    with Cons.prems have "e = (key, val)" by (cases e) auto
    moreover from True Cons.prems have "key \<notin> fst ` set m"
      by simp
    then have "\<forall>x\<in>set m. fst x \<noteq> key"
      by auto
    then have "filter (\<lambda>e. fst e = key) m = []"
      by (simp add: filter_empty_conv)
    ultimately show ?thesis by simp
  next
    case False
    with Cons show ?thesis by (cases e) auto
  qed
qed

text \<open>
  Claim C5. After \<open>set(tag, kernel1)\<close> and then \<open>set(tag, kernel2)\<close>, a lookup
  of the tag yields \<open>kernel2\<close>, the second call emits the overwrite warning and
  returns a table, and a table whose keys were pairwise different holds for the tag the
  one entry \<open>(tag, kernel2)\<close>.
\<close>

theorem KernelTable_set_last_write_wins:
  "KernelTable_lookup
     (fst (KernelTable_set toString place
        (fst (KernelTable_set toString place t tag kernel1 operator_name)) tag kernel2 operator_name))
     tag = Some kernel2 \<and>
   snd (KernelTable_set toString place
        (fst (KernelTable_set toString place t tag kernel1 operator_name)) tag kernel2 operator_name)
     = [overwrite_warning operator_name (toString tag)] \<and>
   (distinct (map fst (entries t)) \<longrightarrow>
      filter (\<lambda>e. fst e = tag)
        (entries (fst (KernelTable_set toString place
           (fst (KernelTable_set toString place t tag kernel1 operator_name)) tag kernel2 operator_name)))
      = [(tag, kernel2)])"
proof (intro conjI impI)
  let ?t1 = "fst (KernelTable_set toString place t tag kernel1 operator_name)"
  let ?t2 = "fst (KernelTable_set toString place ?t1 tag kernel2 operator_name)"
  show l: "KernelTable_lookup ?t2 tag = Some kernel2"
    by (simp add: KernelTable_lookup_set)
  have "KernelTable_lookup ?t1 tag = Some kernel1"
    by (simp add: KernelTable_lookup_set)
  then show "snd (KernelTable_set toString place ?t1 tag kernel2 operator_name)
     = [overwrite_warning operator_name (toString tag)]"
    by (simp add: KernelTable_set_warnings)
  assume "distinct (map fst (entries t))"
  then have "distinct (map fst (entries ?t2))"
    by (intro KernelTable_set_distinct)
  moreover from l have "map_of (entries ?t2) tag = Some kernel2"
    by (simp add: KernelTable_lookup_def flat_hash_map_find_def)
  ultimately show "filter (\<lambda>e. fst e = tag) (entries ?t2) = [(tag, kernel2)]"
    by (rule distinct_filter_key)
qed

text \<open>A table with one CUDA kernel, in which a CPU kernel is registered and then shadowed.\<close>

theorem KernelTable_set_last_write_wins_witness:
  "distinct (map fst (entries \<lparr>entries = [(2, ''cuda_kernel'')]\<rparr>)) \<and>
   entries (fst (KernelTable_set example_toString place_last
        (fst (KernelTable_set example_toString place_last \<lparr>entries = [(2, ''cuda_kernel'')]\<rparr>
           1 ''builtin'' ''aten::add'')) 1 ''shadow'' ''aten::add''))
     = [(2, ''cuda_kernel''), (1, ''shadow'')]"
  using KernelTable_set_last_write_wins [of example_toString place_last "\<lparr>entries = [(2, ''cuda_kernel'')]\<rparr>" 1 "''builtin''" "''aten::add''" "''shadow''"]
  by (simp add: KernelTable_set_def flat_hash_map_emplace_def place_last_def)


lemma list_all_dispatch_keys_loop_concat:
  "list_all_dispatch_keys_loop toString rest str =
   str @ concat (map (\<lambda>e. '', '' @ toString (fst e)) rest)"
  by (induction rest arbitrary: str) simp_all

lemma separated_concat:
  "separated (s # ss) = s @ concat (map (\<lambda>x. '', '' @ x) ss)"
  by (induction ss arbitrary: s) simp_all

lemma list_all_dispatch_keys_bracketed:
  "list_all_dispatch_keys toString t = bracketed toString (map fst (entries t))"
proof (cases "entries t")
  case Nil
  then show ?thesis by (simp add: list_all_dispatch_keys_def bracketed_def)
next
  case (Cons e rest)
  then show ?thesis
    by (simp add: list_all_dispatch_keys_def bracketed_def list_all_dispatch_keys_loop_concat
        separated_concat comp_def)
qed

text \<open>
  Claim C6, as amended. The listing presents the printed tags in the order in which the
  hash map iterates over its entries, separated by a comma and a blank between brackets;
  tables whose hash maps iterate over the same tags in the same order have the same
  listing.
\<close>

theorem list_all_dispatch_keys_iteration_order:
  "list_all_dispatch_keys toString t = bracketed toString (map fst (entries t)) \<and>
   (map fst (entries t) = map fst (entries t') \<longrightarrow>
      list_all_dispatch_keys toString t = list_all_dispatch_keys toString t')"
  by (simp add: list_all_dispatch_keys_bracketed)

text \<open>
  Two tables with other kernels under the same tags in the same order, and their listing.
\<close>

theorem list_all_dispatch_keys_iteration_order_witness:
  "map fst (entries \<lparr>entries = [(2, ''cuda_kernel''), (1, ''cpu_kernel'')]\<rparr>)
     = map fst (entries \<lparr>entries = [(2, ''cuda_shadow''), (1, ''cpu_shadow'')]\<rparr>) \<and>
   list_all_dispatch_keys example_toString \<lparr>entries = [(2, ''cuda_kernel''), (1, ''cpu_kernel'')]\<rparr>
     = list_all_dispatch_keys example_toString \<lparr>entries = [(2, ''cuda_shadow''), (1, ''cpu_shadow'')]\<rparr> \<and>
   list_all_dispatch_keys example_toString \<lparr>entries = [(2, ''cuda_kernel''), (1, ''cpu_kernel'')]\<rparr>
     = ''[CUDATensorId, CPUTensorId]''"
  using list_all_dispatch_keys_iteration_order [of example_toString
      "\<lparr>entries = [(2, ''cuda_kernel''), (1, ''cpu_kernel'')]\<rparr>"
      "\<lparr>entries = [(2, ''cuda_shadow''), (1, ''cpu_shadow'')]\<rparr>"]
  by (auto simp add: bracketed_def example_toString_def)

text \<open>
  Claim C6 as stated fails: a table that the hash map iterates with tag 2 before tag 1
  lists them in that order, which is not the sorted listing, and a table with the same
  tags iterated in the other order gives another listing.
\<close>

theorem list_all_dispatch_keys_not_sorted:
  "list_all_dispatch_keys example_toString \<lparr>entries = [(2, ''cuda_kernel''), (1, ''cpu_kernel'')]\<rparr>
     = ''[CUDATensorId, CPUTensorId]'' \<and>
   sorted_listing example_toString \<lparr>entries = [(2, ''cuda_kernel''), (1, ''cpu_kernel'')]\<rparr>
     = ''[CPUTensorId, CUDATensorId]'' \<and>
   list_all_dispatch_keys example_toString \<lparr>entries = [(2, ''cuda_kernel''), (1, ''cpu_kernel'')]\<rparr>
     \<noteq> sorted_listing example_toString \<lparr>entries = [(2, ''cuda_kernel''), (1, ''cpu_kernel'')]\<rparr> \<and>
   set (entries \<lparr>entries = [(2, ''cuda_kernel''), (1, ''cpu_kernel'')]\<rparr>)
     = set (entries \<lparr>entries = [(1, ''cpu_kernel''), (2, ''cuda_kernel'')]\<rparr>) \<and>
   list_all_dispatch_keys example_toString \<lparr>entries = [(2, ''cuda_kernel''), (1, ''cpu_kernel'')]\<rparr>
     \<noteq> list_all_dispatch_keys example_toString \<lparr>entries = [(1, ''cpu_kernel''), (2, ''cuda_kernel'')]\<rparr>"
  by (auto simp add: list_all_dispatch_keys_def sorted_listing_def bracketed_def example_toString_def)

section \<open>Properties of the resolution\<close>

lemma dispatch_found:
  "lookup t key = Some kern \<Longrightarrow> dispatch toString t (Some key) = Inr kern"
  by (simp add: dispatch_def)


lemma dispatch_failure:
  "dispatchKey = None \<or> (\<exists>key. dispatchKey = Some key \<and> lookup t key = None) \<Longrightarrow>
   lookupCatchallKernel t = None \<Longrightarrow>
   dispatch toString t dispatchKey =
     (if dispatchKey = None \<or> dispatchKey = Some UndefinedTensorId
      then Inl (NoTaggedArguments (operatorName t) (listAllDispatchKeys toString t))
      else Inl (NoKernelFound (operatorName t)
                  (case dispatchKey of Some key \<Rightarrow> toString key | None \<Rightarrow> ''None'')
                  (listAllDispatchKeys toString t)))"
  by (auto simp: dispatch_def)

lemma failures_distinct:
  "NoTaggedArguments n r \<noteq> NoKernelFound n' s r'"
  by (simp add: NoTaggedArguments_def NoKernelFound_def)

lemma listAllDispatchKeys_bracketed:
  "listAllDispatchKeys toString t = bracketed toString (map fst (entries (kernels t)))"
  by (simp add: listAllDispatchKeys_def list_all_dispatch_keys_bracketed)

text \<open>
  Claim C2. When no kernel matches the key and no catchall is registered, the call fails.
  The failure has the message of \<open>NoTaggedArguments\<close>, which ends with the listing of
  the registered tags, exactly when the key is absent or is \<open>UndefinedTensorId\<close>;
  for any other key it has the message of \<open>NoKernelFound\<close>, which holds the operator
  name, the printed key that was requested and the listing of the registered tags. The
  two messages are never equal.
\<close>

theorem dispatch_failure_kind:
  assumes "dispatchKey = None \<or> (\<exists>key. dispatchKey = Some key \<and> lookup t key = None)"
    and "lookupCatchallKernel t = None"
  shows "(dispatch toString t dispatchKey
            = Inl (Error
                (''There were no tensor arguments to this function (e.g., you passed an '' @
                 ''empty list of Tensors), but no fallback function is registered for schema '' @
                 opName t @
                 ''.  This usually means that this function requires a non-empty list of Tensors.  '' @
                 ''Available functions are '' @
                 bracketed toString (map fst (entries (kernels t)))))
          \<longleftrightarrow> dispatchKey = None \<or> dispatchKey = Some UndefinedTensorId) \<and>
         (\<forall>key. dispatchKey = Some key \<and> key \<noteq> UndefinedTensorId \<longrightarrow>
            dispatch toString t dispatchKey
              = Inl (Error
                  (''Didn't find kernel to dispatch to for operator '' @ [CHR 0x27] @ opName t @
                   [CHR 0x27] @ ''. Tried to look up kernel for dispatch key '' @ [CHR 0x27] @
                   toString key @
                   [CHR 0x27] @ ''. Registered dispatch keys are: '' @
                   bracketed toString (map fst (entries (kernels t)))))) \<and>
         (''There were no tensor arguments to this function (e.g., you passed an '' @
          ''empty list of Tensors), but no fallback function is registered for schema '' @
          n @
          ''.  This usually means that this function requires a non-empty list of Tensors.  '' @
          ''Available functions are '' @ r)
         \<noteq>
         (''Didn't find kernel to dispatch to for operator '' @ [CHR 0x27] @ n' @
          [CHR 0x27] @ ''. Tried to look up kernel for dispatch key '' @ [CHR 0x27] @ s @
          [CHR 0x27] @ ''. Registered dispatch keys are: '' @ r')"
proof -
  have ne: "NoKernelFound a b c \<noteq> NoTaggedArguments d e" for a b c d e
    using failures_distinct [of d e a b c] by (rule not_sym)
  have f: "dispatch toString t dispatchKey =
     (if dispatchKey = None \<or> dispatchKey = Some UndefinedTensorId
      then Inl (NoTaggedArguments (operatorName t) (listAllDispatchKeys toString t))
      else Inl (NoKernelFound (operatorName t)
                  (case dispatchKey of Some key \<Rightarrow> toString key | None \<Rightarrow> ''None'')
                  (listAllDispatchKeys toString t)))"
    using assms by (rule dispatch_failure)
  have m1: "Error
       (''There were no tensor arguments to this function (e.g., you passed an '' @
        ''empty list of Tensors), but no fallback function is registered for schema '' @
        opName t @
        ''.  This usually means that this function requires a non-empty list of Tensors.  '' @
        ''Available functions are '' @
        bracketed toString (map fst (entries (kernels t))))
     = NoTaggedArguments (operatorName t) (listAllDispatchKeys toString t)"
    by (simp add: NoTaggedArguments_def operatorName_def listAllDispatchKeys_bracketed)
  have m2: "Error
       (''Didn't find kernel to dispatch to for operator '' @ [CHR 0x27] @ opName t @
        [CHR 0x27] @ ''. Tried to look up kernel for dispatch key '' @ [CHR 0x27] @
        toString key @
        [CHR 0x27] @ ''. Registered dispatch keys are: '' @
        bracketed toString (map fst (entries (kernels t))))
     = NoKernelFound (operatorName t) (toString key) (listAllDispatchKeys toString t)" for key
    by (simp add: NoKernelFound_def operatorName_def listAllDispatchKeys_bracketed)
  have c1: "dispatch toString t dispatchKey
            = Inl (NoTaggedArguments (operatorName t) (listAllDispatchKeys toString t))
          \<longleftrightarrow> dispatchKey = None \<or> dispatchKey = Some UndefinedTensorId"
    using f by (auto simp: ne split: if_splits)
  have c2: "\<forall>key. dispatchKey = Some key \<and> key \<noteq> UndefinedTensorId \<longrightarrow>
            dispatch toString t dispatchKey
              = Inl (NoKernelFound (operatorName t) (toString key) (listAllDispatchKeys toString t))"
    using f by auto
  have c3: "(''There were no tensor arguments to this function (e.g., you passed an '' @
          ''empty list of Tensors), but no fallback function is registered for schema '' @
          n @
          ''.  This usually means that this function requires a non-empty list of Tensors.  '' @
          ''Available functions are '' @ r)
         \<noteq>
         (''Didn't find kernel to dispatch to for operator '' @ [CHR 0x27] @ n' @
          [CHR 0x27] @ ''. Tried to look up kernel for dispatch key '' @ [CHR 0x27] @ s @
          [CHR 0x27] @ ''. Registered dispatch keys are: '' @ r')"
    by simp
  show ?thesis
    unfolding m1 m2 using c1 c2 c3 by blast
qed

text \<open>
  A table with a CPU kernel only, asked for the CUDA tag and with no key: the two
  messages in full.
\<close>

theorem dispatch_failure_kind_witness:
  "dispatch example_toString
     \<lparr>kernels = \<lparr>entries = [(1, ''cpu_kernel'')]\<rparr>, catchall = None, opName = ''aten::add''\<rparr>
     (Some 2)
   = Inl (Error (''Didn't find kernel to dispatch to for operator 'aten::add'. '' @
                 ''Tried to look up kernel for dispatch key 'CUDATensorId'. '' @
                 ''Registered dispatch keys are: [CPUTensorId]'')) \<and>
   dispatch example_toString
     \<lparr>kernels = \<lparr>entries = [(1, ''cpu_kernel'')]\<rparr>, catchall = None, opName = ''aten::add''\<rparr>
     None
   = Inl (Error (''There were no tensor arguments to this function (e.g., you passed an '' @
                 ''empty list of Tensors), but no fallback function is registered for schema '' @
                 ''aten::add.  This usually means that this function requires a non-empty '' @
                 ''list of Tensors.  Available functions are [CPUTensorId]''))"
  using dispatch_failure_kind [of "Some 2"
      "\<lparr>kernels = \<lparr>entries = [(1, ''cpu_kernel'')]\<rparr>, catchall = None, opName = ''aten::add''\<rparr>"
      example_toString]
    dispatch_failure_kind [of None
      "\<lparr>kernels = \<lparr>entries = [(1, ''cpu_kernel'')]\<rparr>, catchall = None, opName = ''aten::add''\<rparr>"
      example_toString]
  by (simp add: lookup_def KernelTable_lookup_def flat_hash_map_find_def lookupCatchallKernel_def
      UndefinedTensorId_def bracketed_def example_toString_def)





text \<open>
  Claim C10. The key \<open>UndefinedTensorId\<close> is looked up like any other: when the
  table has a kernel for it, in particular after \<open>KernelTable_::set\<close> stored one
  under it, \<open>dispatch\<close> returns that kernel and reaches neither failure.
\<close>

theorem dispatch_undefined_key_kernel:
  "(lookup t UndefinedTensorId = Some kern \<longrightarrow>
      dispatch toString t (Some UndefinedTensorId) = Inr kern) \<and>
   dispatch toString
     (t\<lparr>kernels := fst (KernelTable_set toString place (kernels t) UndefinedTensorId kern operator_name)\<rparr>)
     (Some UndefinedTensorId) = Inr kern"
proof (intro conjI impI)
  assume "lookup t UndefinedTensorId = Some kern"
  then show "dispatch toString t (Some UndefinedTensorId) = Inr kern" by (rule dispatch_found)
next
  let ?t = "t\<lparr>kernels := fst (KernelTable_set toString place (kernels t) UndefinedTensorId kern operator_name)\<rparr>"
  have "lookup ?t UndefinedTensorId = Some kern"
    by (simp add: lookup_def KernelTable_lookup_set)
  then show "dispatch toString ?t (Some UndefinedTensorId) = Inr kern" by (rule dispatch_found)
qed

text \<open>A table whose only kernel is registered under the undefined tag.\<close>

theorem dispatch_undefined_key_kernel_witness:
  "lookup \<lparr>kernels = \<lparr>entries = [(UndefinedTensorId, ''undefined_kernel'')]\<rparr>, catchall = None,
            opName = ''aten::add''\<rparr> UndefinedTensorId = Some ''undefined_kernel'' \<and>
   dispatch example_toString
      \<lparr>kernels = \<lparr>entries = [(UndefinedTensorId, ''undefined_kernel'')]\<rparr>, catchall = None,
            opName = ''aten::add''\<rparr> (Some UndefinedTensorId) = Inr ''undefined_kernel''"
  using dispatch_undefined_key_kernel [of "\<lparr>kernels = \<lparr>entries = [(UndefinedTensorId, ''undefined_kernel'')]\<rparr>, catchall = None,
            opName = ''aten::add''\<rparr>" "''undefined_kernel''" example_toString]
  by (simp add: lookup_def KernelTable_lookup_def flat_hash_map_find_def)

lemma dispatchTypeId_pair:
  assumes "B < A" "included local = {||}" "excluded local = {||}"
  shows "dispatchTypeId local {|A, B|} = A"
  using assms by (simp add: dispatchTypeId_def highestPriorityTypeId_def max_def)

text \<open>
  Claim C1, as amended. For the tag set \<open>{A, B}\<close> with \<open>A\<close> of higher priority
  and no thread-local override, the extracted key is \<open>A\<close>; the kernel registered
  for \<open>A\<close> is resolved when there is one, and otherwise the catchall when there is
  one, and otherwise the call fails with \<open>NoKernelFound\<close> for \<open>A\<close>. The kernel
  of \<open>B\<close> is never consulted.
\<close>

theorem dispatch_highest_priority_only:
  assumes "B < A" and "included local = {||}" and "excluded local = {||}"
  shows "dispatchTypeId local {|A, B|} = A \<and>
         dispatch toString t (Some (dispatchTypeId local {|A, B|})) =
           (case lookup t A of
              Some kernelA \<Rightarrow> Inr kernelA
            | None \<Rightarrow>
                (case lookupCatchallKernel t of
                   Some c \<Rightarrow> Inr c
                 | None \<Rightarrow> Inl (NoKernelFound (operatorName t) (toString A)
                                  (listAllDispatchKeys toString t))))"
proof -
  have k: "dispatchTypeId local {|A, B|} = A" using assms by (rule dispatchTypeId_pair)
  from assms(1) have "A \<noteq> UndefinedTensorId" by (simp add: UndefinedTensorId_def)
  then have "dispatch toString t (Some A) =
           (case lookup t A of
              Some kernelA \<Rightarrow> Inr kernelA
            | None \<Rightarrow>
                (case lookupCatchallKernel t of
                   Some c \<Rightarrow> Inr c
                 | None \<Rightarrow> Inl (NoKernelFound (operatorName t) (toString A)
                                  (listAllDispatchKeys toString t))))"
    by (simp add: dispatch_def split: option.splits)
  with k show ?thesis by simp
qed

text \<open>Kernels for both tags: the CUDA kernel, of higher priority, is resolved.\<close>

theorem dispatch_highest_priority_only_witness:
  "(1::nat) < 2 \<and>
   dispatch example_toString
     \<lparr>kernels = \<lparr>entries = [(1, ''cpu_kernel''), (2, ''cuda_kernel'')]\<rparr>, catchall = None,
      opName = ''aten::add''\<rparr>
     (Some (dispatchTypeId \<lparr>included = {||}, excluded = {||}\<rparr> {|2, 1|})) = Inr ''cuda_kernel''"
  using dispatch_highest_priority_only [of 1 2 "\<lparr>included = {||}, excluded = {||}\<rparr>" example_toString
     "\<lparr>kernels = \<lparr>entries = [(1, ''cpu_kernel''), (2, ''cuda_kernel'')]\<rparr>, catchall = None,
      opName = ''aten::add''\<rparr>"]
  by (auto simp add: lookup_def KernelTable_lookup_def flat_hash_map_find_def)

text \<open>
  Claim C1 as stated fails: with a kernel for tag 1 only, no catchall and arguments
  carrying the tags 2 and 1, the call fails with \<open>NoKernelFound\<close> for tag 2 and does
  not reach the kernel of tag 1.
\<close>

theorem dispatch_no_fallback_to_lower_priority:
  "lookup \<lparr>kernels = \<lparr>entries = [(1, ''cpu_kernel'')]\<rparr>, catchall = None, opName = ''aten::add''\<rparr> 1
     = Some ''cpu_kernel'' \<and>
   lookup \<lparr>kernels = \<lparr>entries = [(1, ''cpu_kernel'')]\<rparr>, catchall = None, opName = ''aten::add''\<rparr> 2
     = None \<and>
   multi_dispatch_tensor_type_set [TensorArg {|2|}, TensorArg {|1|}] = {|2, 1|} \<and>
   dispatch example_toString
     \<lparr>kernels = \<lparr>entries = [(1, ''cpu_kernel'')]\<rparr>, catchall = None, opName = ''aten::add''\<rparr>
     (Some (dispatchTypeId \<lparr>included = {||}, excluded = {||}\<rparr> {|2, 1|}))
   = Inl (NoKernelFound ''aten::add'' ''CUDATensorId'' ''[CPUTensorId]'') \<and>
   dispatch example_toString
     \<lparr>kernels = \<lparr>entries = [(1, ''cpu_kernel'')]\<rparr>, catchall = None, opName = ''aten::add''\<rparr>
     (Some (dispatchTypeId \<lparr>included = {||}, excluded = {||}\<rparr> {|2, 1|}))
   \<noteq> Inr ''cpu_kernel''"
  by (simp add: lookup_def KernelTable_lookup_def flat_hash_map_find_def lookupCatchallKernel_def
      UndefinedTensorId_def operatorName_def listAllDispatchKeys_def list_all_dispatch_keys_def
      example_toString_def dispatch_def dispatchTypeId_def highestPriorityTypeId_def
      multi_dispatch_tensor_type_set_def NoKernelFound_def finsert_commute)

section \<open>Properties of the call functions and the registry\<close>

lemma getDispatchKeyBoxed_unboxed:
  "DispatchKeyExtractor_getDispatchKeyBoxed local dispatchTable args = DispatchKeyExtractor_getDispatchKeyUnboxed local dispatchTable' args"
  by (simp add: DispatchKeyExtractor_getDispatchKeyBoxed_def DispatchKeyExtractor_getDispatchKeyUnboxed_def
      multi_dispatch_tensor_type_set_def MultiDispatchTensorTypeSet_apply_union)

lemma dispatch_Some:
  "dispatch toString t (Some key) =
     (case lookup t key of
        Some kern \<Rightarrow> Inr kern
      | None \<Rightarrow>
          (case lookupCatchallKernel t of
             Some c \<Rightarrow> Inr c
           | None \<Rightarrow>
               if key = UndefinedTensorId
               then Inl (NoTaggedArguments (operatorName t) (listAllDispatchKeys toString t))
               else Inl (NoKernelFound (operatorName t) (toString key)
                           (listAllDispatchKeys toString t))))"
  by (simp add: dispatch_def split: option.splits)

text \<open>
  Claim C9. For every operator and every call, the boxed call on the stack holding the
  arguments and the two unboxed calls on the arguments resolve alike, by the rules of the
  one function \<open>dispatch\<close> applied to the table of the operator and the key of highest
  priority among the tags of the arguments: all three invoke the kernel registered for
  that key when there is one, otherwise all three invoke the catchall when there is one,
  and otherwise all three fail with the same failure.
\<close>

theorem call_conventions_agree:
  "(case lookup (entry_dispatchTable (op operator))
           (dispatchTypeId local (multi_dispatch_tensor_type_set args)) of
      Some kern \<Rightarrow>
        callBoxed toString (DispatchKeyExtractor_getDispatchKeyBoxed local) kernel_callBoxed operator args
          = Inr (kernel_callBoxed kern args) \<and>
        callUnboxed toString (DispatchKeyExtractor_getDispatchKeyUnboxed local) kernel_callUnboxed operator args
          = Inr (kernel_callUnboxed kern args) \<and>
        callUnboxedOnly toString (DispatchKeyExtractor_getDispatchKeyUnboxed local) kernel_callUnboxedOnly operator args
          = Inr (kernel_callUnboxedOnly kern args)
    | None \<Rightarrow>
        (case lookupCatchallKernel (entry_dispatchTable (op operator)) of
           Some c \<Rightarrow>
             callBoxed toString (DispatchKeyExtractor_getDispatchKeyBoxed local) kernel_callBoxed operator args
               = Inr (kernel_callBoxed c args) \<and>
             callUnboxed toString (DispatchKeyExtractor_getDispatchKeyUnboxed local) kernel_callUnboxed operator args
               = Inr (kernel_callUnboxed c args) \<and>
             callUnboxedOnly toString (DispatchKeyExtractor_getDispatchKeyUnboxed local) kernel_callUnboxedOnly operator args
               = Inr (kernel_callUnboxedOnly c args)
         | None \<Rightarrow>
             (\<exists>e. e = (if dispatchTypeId local (multi_dispatch_tensor_type_set args)
                           = UndefinedTensorId
                        then NoTaggedArguments (opName (entry_dispatchTable (op operator)))
                               (bracketed toString
                                  (map fst (entries (kernels (entry_dispatchTable (op operator))))))
                        else NoKernelFound (opName (entry_dispatchTable (op operator)))
                               (toString (dispatchTypeId local (multi_dispatch_tensor_type_set args)))
                               (bracketed toString
                                  (map fst (entries (kernels (entry_dispatchTable (op operator))))))) \<and>
                  callBoxed toString (DispatchKeyExtractor_getDispatchKeyBoxed local) kernel_callBoxed operator args
                    = Inl e \<and>
                  callUnboxed toString (DispatchKeyExtractor_getDispatchKeyUnboxed local) kernel_callUnboxed operator args
                    = Inl e \<and>
                  callUnboxedOnly toString (DispatchKeyExtractor_getDispatchKeyUnboxed local) kernel_callUnboxedOnly
                      operator args
                    = Inl e)))"
proof -
  let ?T = "entry_dispatchTable (op operator)"
  let ?key = "dispatchTypeId local (multi_dispatch_tensor_type_set args)"
  have u: "DispatchKeyExtractor_getDispatchKeyUnboxed local ?T args = Some ?key"
    by (simp add: DispatchKeyExtractor_getDispatchKeyUnboxed_def)
  have b: "DispatchKeyExtractor_getDispatchKeyBoxed local ?T args = Some ?key"
    by (simp add: getDispatchKeyBoxed_unboxed [of local ?T args ?T] u)
  have cb: "callBoxed toString (DispatchKeyExtractor_getDispatchKeyBoxed local) kernel_callBoxed operator args =
      (case dispatch toString ?T (Some ?key) of
         Inl e \<Rightarrow> Inl e | Inr kern \<Rightarrow> Inr (kernel_callBoxed kern args))"
    by (simp add: callBoxed_def readDispatchTable_def b)
  have cu: "callUnboxed toString (DispatchKeyExtractor_getDispatchKeyUnboxed local) kernel_callUnboxed operator args =
      (case dispatch toString ?T (Some ?key) of
         Inl e \<Rightarrow> Inl e | Inr kern \<Rightarrow> Inr (kernel_callUnboxed kern args))"
    by (simp add: callUnboxed_def readDispatchTable_def u)
  have co: "callUnboxedOnly toString (DispatchKeyExtractor_getDispatchKeyUnboxed local) kernel_callUnboxedOnly operator args =
      (case dispatch toString ?T (Some ?key) of
         Inl e \<Rightarrow> Inl e | Inr kern \<Rightarrow> Inr (kernel_callUnboxedOnly kern args))"
    by (simp add: callUnboxedOnly_def readDispatchTable_def u)
  show ?thesis
    unfolding cb cu co dispatch_Some
    by (simp add: operatorName_def listAllDispatchKeys_bracketed split: option.splits)
qed

text \<open>
  A boxed and an unboxed call of an operator with a CPU kernel, on a CPU tensor and on a
  CUDA tensor.
\<close>

theorem call_conventions_agree_witness:
  "callBoxed example_toString (DispatchKeyExtractor_getDispatchKeyBoxed \<lparr>included = {||}, excluded = {||}\<rparr>)
       example_callBoxed example_operator [OtherArg, TensorArg {|1|}]
     = Inr (example_callBoxed ''cpu_kernel'' [OtherArg, TensorArg {|1|}]) \<and>
   callUnboxed example_toString (DispatchKeyExtractor_getDispatchKeyUnboxed \<lparr>included = {||}, excluded = {||}\<rparr>)
       example_callUnboxed example_operator [OtherArg, TensorArg {|1|}]
     = Inr ''cpu_kernel'' \<and>
   callBoxed example_toString (DispatchKeyExtractor_getDispatchKeyBoxed \<lparr>included = {||}, excluded = {||}\<rparr>)
       example_callBoxed example_operator [TensorArg {|2|}]
     = Inl (NoKernelFound ''aten::add'' ''CUDATensorId'' ''[CPUTensorId]'') \<and>
   callUnboxed example_toString (DispatchKeyExtractor_getDispatchKeyUnboxed \<lparr>included = {||}, excluded = {||}\<rparr>)
       example_callUnboxed example_operator [TensorArg {|2|}]
     = Inl (NoKernelFound ''aten::add'' ''CUDATensorId'' ''[CPUTensorId]'')"
  using call_conventions_agree [where operator = example_operator
      and local = "\<lparr>included = {||}, excluded = {||}\<rparr>"
      and args = "[OtherArg, TensorArg {|1|}]" and toString = example_toString
      and kernel_callBoxed = example_callBoxed and kernel_callUnboxed = example_callUnboxed
      and kernel_callUnboxedOnly = example_callUnboxed]
    call_conventions_agree [where operator = example_operator
      and local = "\<lparr>included = {||}, excluded = {||}\<rparr>"
      and args = "[TensorArg {|2|}]" and toString = example_toString
      and kernel_callBoxed = example_callBoxed and kernel_callUnboxed = example_callUnboxed
      and kernel_callUnboxedOnly = example_callUnboxed]
  by (simp add: example_operator_def lookup_def lookupCatchallKernel_def
      KernelTable_lookup_def flat_hash_map_find_def dispatchTypeId_def highestPriorityTypeId_def
      multi_dispatch_tensor_type_set_def example_callUnboxed_def UndefinedTensorId_def
      bracketed_def example_toString_def)

lemma fold_max_ge: "a \<le> fold max xs (a::nat)"
  by (induction xs arbitrary: a) (auto intro: order_trans [OF max.cobounded2])

lemma fold_max_member: "x \<in> set xs \<Longrightarrow> x \<le> fold max xs (a::nat)"
proof (induction xs arbitrary: a)
  case Nil
  then show ?case by simp
next
  case (Cons y ys)
  show ?case
  proof (cases "x = y")
    case True
    have "y \<le> max y a" by simp
    also have "\<dots> \<le> fold max ys (max y a)" by (rule fold_max_ge)
    finally show ?thesis using True by simp
  next
    case False
    with Cons show ?thesis by simp
  qed
qed

lemma new_node_fresh: "new_node nodes \<notin> fst ` set nodes"
proof
  assume "new_node nodes \<in> fst ` set nodes"
  then have "new_node nodes \<in> set (map fst nodes)" by simp
  then have "new_node nodes \<le> fold max (map fst nodes) 0" by (rule fold_max_member)
  then show False by (simp add: new_node_def)
qed

lemma new_node_map_of: "map_of nodes (new_node nodes) = None"
  using new_node_fresh [of nodes] by (simp add: map_of_eq_None_iff)

lemma map_of_append_new:
  "map_of nodes h = Some found \<Longrightarrow> map_of (nodes @ [(h', v)]) h = Some found"
  by simp

lemma map_of_increment_refcount:
  "map_of (increment_refcount h' nodes) h =
     (case map_of nodes h of
        None \<Rightarrow> None
      | Some found \<Rightarrow>
          Some (if h = h' then found\<lparr>refcount := Suc (refcount found)\<rparr> else found))"
  by (induction nodes) (auto simp: increment_refcount_def)

lemma findOrRegisterSchema_keeps:
  assumes "findOrRegisterSchema place d schema options = Inr (h', d')"
    and "operatorIterator d h = Some found"
  shows "operatorIterator d' h = Some found"
  using assms
  by (auto simp: findOrRegisterSchema_def operatorIterator_def Let_def
      split: option.splits if_splits)

lemma findOrRegisterSchema_handle:
  assumes "findOrRegisterSchema place d schema options = Inr (h', d')"
  shows "\<exists>found. operatorIterator d' h' = Some found \<and> entry_schema (op found) = schema"
  using assms new_node_map_of [of "operators d"]
  by (auto simp: findOrRegisterSchema_def operatorIterator_def Let_def OperatorDef_def
      OperatorEntry_def map_add_def split: option.splits if_splits)

lemma findOrRegisterSchema_origin:
  assumes "findOrRegisterSchema place d schema options = Inr (h', d')"
  shows "findSchema d (schema_name schema) = Some h' \<or> operatorIterator d h' = None"
  using assms new_node_map_of [of "operators d"]
  by (auto simp: findOrRegisterSchema_def operatorIterator_def Let_def
      split: option.splits if_splits)

lemma set_insert_at: "set (take p m @ x # drop p m) = insert x (set m)"
proof -
  have "set (take p m @ x # drop p m) = insert x (set (take p m @ drop p m))"
    by (simp del: append_take_drop_id)
  then show ?thesis by simp
qed

lemma flat_hash_map_emplace_set:
  "set (fst (flat_hash_map_emplace place m key val)) \<subseteq> insert (key, val) (set m)"
proof (cases "map_of m key")
  case None
  then have "fst (flat_hash_map_emplace place m key val) =
      take (place key (map fst m)) m @ (key, val) # drop (place key (map fst m)) m"
    by (simp add: flat_hash_map_emplace_def Let_def)
  then show ?thesis by (simp only: set_insert_at)
next
  case (Some old)
  then show ?thesis by (auto simp: flat_hash_map_emplace_def)
qed

lemma findOrRegisterSchema_index:
  assumes "findOrRegisterSchema place d schema options = Inr (h', d')"
  shows "set (operatorLookupTable d') \<subseteq> insert (schema_name schema, h') (set (operatorLookupTable d))"
proof (cases "findSchema d (schema_name schema)")
  case None
  with assms have "operatorLookupTable d' =
      fst (flat_hash_map_emplace place (operatorLookupTable d) (schema_name schema) h')"
    by (auto simp: findOrRegisterSchema_def Let_def)
  then show ?thesis by (simp only: flat_hash_map_emplace_set)
next
  case (Some h)
  with assms have "d' = d"
    by (auto simp: findOrRegisterSchema_def split: option.splits if_splits)
  then show ?thesis by auto
qed

lemma registerSchema_Inr:
  assumes "registerSchema place d schema options = Inr (h', d')"
  obtains d1 where "findOrRegisterSchema place d schema options = Inr (h', d1)"
    and "d' = d1\<lparr>operators := increment_refcount h' (operators d1)\<rparr>"
  using assms by (auto simp: registerSchema_def split: sum.splits)

lemma registerSchema_keeps_entry:
  assumes "registerSchema place d schema options = Inr (h', d')"
    and "operatorIterator d h = Some found"
  shows "operatorIterator d' h =
           Some (if h = h' then found\<lparr>refcount := Suc (refcount found)\<rparr> else found)"
proof -
  from assms(1) obtain d1 where f: "findOrRegisterSchema place d schema options = Inr (h', d1)"
    and d': "d' = d1\<lparr>operators := increment_refcount h' (operators d1)\<rparr>"
    by (rule registerSchema_Inr)
  from f assms(2) have "operatorIterator d1 h = Some found"
    by (rule findOrRegisterSchema_keeps)
  then show ?thesis
    by (simp add: d' operatorIterator_def map_of_increment_refcount)
qed

lemma index_consistent_find:
  assumes "index_consistent d" and "findSchema d n = Some h"
  shows "\<exists>found. operatorIterator d h = Some found \<and> schema_name (entry_schema (op found)) = n"
proof -
  from assms(2) have "(n, h) \<in> set (operatorLookupTable d)"
    by (simp add: findSchema_def flat_hash_map_find_def map_of_SomeD)
  with assms(1) have "names_node d (n, h)"
    by (simp add: index_consistent_def list_all_iff)
  then show ?thesis
    by (simp add: names_node_def split: option.splits)
qed

lemma registerSchema_other_handle:
  assumes r: "registerSchema place d schema options = Inr (h', d')"
    and c: "index_consistent d"
    and v: "operatorIterator d h = Some found"
    and n: "schema_name schema \<noteq> schema_name (entry_schema (op found))"
  shows "h \<noteq> h'"
proof
  assume eq: "h = h'"
  from r obtain d1 where f: "findOrRegisterSchema place d schema options = Inr (h', d1)"
    by (rule registerSchema_Inr)
  then have "findSchema d (schema_name schema) = Some h' \<or> operatorIterator d h' = None"
    by (rule findOrRegisterSchema_origin)
  with v eq have "findSchema d (schema_name schema) = Some h" by simp
  with c obtain found' where "operatorIterator d h = Some found'"
    and "schema_name (entry_schema (op found')) = schema_name schema"
    using index_consistent_find by blast
  with v n show False by simp
qed

lemma registerSchema_index_consistent:
  assumes r: "registerSchema place d schema options = Inr (h', d')"
    and c: "index_consistent d"
  shows "index_consistent d'"
proof -
  from r obtain d1 where f: "findOrRegisterSchema place d schema options = Inr (h', d1)"
    and d': "d' = d1\<lparr>operators := increment_refcount h' (operators d1)\<rparr>"
    by (rule registerSchema_Inr)
  have step: "names_node d' e" if "names_node d1 e" for e
    using that
    by (auto simp: names_node_def d' operatorIterator_def map_of_increment_refcount
        split: option.splits)
  have "names_node d1 e" if e: "e \<in> set (operatorLookupTable d1)" for e
  proof (cases "e = (schema_name schema, h')")
    case True
    with findOrRegisterSchema_handle [OF f] show ?thesis
      by (auto simp: names_node_def)
  next
    case False
    with e findOrRegisterSchema_index [OF f] have "e \<in> set (operatorLookupTable d)" by auto
    with c have "names_node d e" by (simp add: index_consistent_def list_all_iff)
    then obtain found where "operatorIterator d (snd e) = Some found"
      and "schema_name (entry_schema (op found)) = fst e"
      by (auto simp: names_node_def split: option.splits)
    with findOrRegisterSchema_keeps [OF f] show ?thesis
      by (simp add: names_node_def)
  qed
  then have "names_node d' e" if "e \<in> set (operatorLookupTable d')" for e
    using that step by (simp add: d')
  then show ?thesis by (simp add: index_consistent_def list_all_iff)
qed

lemma registrations_keep_entry:
  "operatorIterator d h = Some found \<Longrightarrow>
   \<exists>found'. operatorIterator (registrations place d rs) h = Some found' \<and> op found' = op found"
proof (induction rs arbitrary: d found)
  case Nil
  then show ?case by simp
next
  case (Cons r rs)
  show ?case
  proof (cases "registerSchema place d (fst r) (snd r)")
    case (Inl e)
    with Cons show ?thesis by simp
  next
    case (Inr p)
    obtain h' d' where p: "p = (h', d')" by (cases p)
    let ?found = "if h = h' then found\<lparr>refcount := Suc (refcount found)\<rparr> else found"
    from Inr p Cons.prems have "operatorIterator d' h = Some ?found"
      by (simp add: registerSchema_keeps_entry)
    from Cons.IH [OF this] obtain found' where
      "operatorIterator (registrations place d' rs) h = Some found'" and "op found' = op ?found"
      by blast
    with Inr p show ?thesis by auto
  qed
qed

lemma registrations_unrelated:
  "index_consistent d \<Longrightarrow> operatorIterator d h = Some found \<Longrightarrow>
   \<forall>r\<in>set rs. schema_name (fst r) \<noteq> schema_name (entry_schema (op found)) \<Longrightarrow>
   operatorIterator (registrations place d rs) h = Some found"
proof (induction rs arbitrary: d)
  case Nil
  then show ?case by simp
next
  case (Cons r rs)
  show ?case
  proof (cases "registerSchema place d (fst r) (snd r)")
    case (Inl e)
    with Cons show ?thesis by simp
  next
    case (Inr p)
    obtain h' d' where p: "p = (h', d')" by (cases p)
    with Inr have r: "registerSchema place d (fst r) (snd r) = Inr (h', d')" by simp
    from Cons.prems(3) have n: "schema_name (fst r) \<noteq> schema_name (entry_schema (op found))"
      by simp
    have "h \<noteq> h'"
      using r Cons.prems(1) Cons.prems(2) n by (rule registerSchema_other_handle)
    with registerSchema_keeps_entry [OF r Cons.prems(2)]
    have v': "operatorIterator d' h = Some found" by simp
    have c': "index_consistent d'"
      using r Cons.prems(1) by (rule registerSchema_index_consistent)
    from Cons.prems(3)
    have "\<forall>r\<in>set rs. schema_name (fst r) \<noteq> schema_name (entry_schema (op found))" by simp
    with c' v' have "operatorIterator (registrations place d' rs) h = Some found"
      by (rule Cons.IH)
    with r show ?thesis by simp
  qed
qed

text \<open>
  Claim C7. A handle that designates a node of the registry designates it after any
  sequence of schema registrations, with the same \<open>OperatorEntry\<close>; when the index is
  consistent and the registrations are for other operator names, the whole node, its
  reference count included, is as before.
\<close>

theorem handle_stable_under_registrations:
  assumes "operatorIterator d h = Some found"
  shows "(\<exists>found'. operatorIterator (registrations place d rs) h = Some found' \<and>
            op found' = op found) \<and>
         (index_consistent d \<and>
          (\<forall>r\<in>set rs. schema_name (fst r) \<noteq> schema_name (entry_schema (op found))) \<longrightarrow>
          operatorIterator (registrations place d rs) h = Some found)"
  using assms registrations_keep_entry [OF assms, of place rs]
    registrations_unrelated [of d h found rs place]
  by blast

text \<open>
  The handle of \<open>aten::add\<close> before and after three registrations of other operators,
  which add two nodes to the registry.
\<close>

theorem handle_stable_under_registrations_witness:
  "operatorIterator example_registry 1 = Some example_operator \<and>
   index_consistent example_registry \<and>
   map (\<lambda>r. schema_name (fst r)) example_registrations = [''aten::mul'', ''aten::neg'', ''aten::mul''] \<and>
   operatorIterator (registrations place_last example_registry example_registrations) 1
     = Some example_operator"
  using handle_stable_under_registrations [of example_registry 1 example_operator place_last
      example_registrations]
  by (simp add: example_registry_def operatorIterator_def example_registrations_def
      example_operator_def index_consistent_def names_node_def)

end
